theory Spec2Isabelle
  imports Main "HOL-Library.Sublist"
begin

section \<open>Python values and built-ins used by \<open>preview_server.py\<close>\<close>

text \<open>
  A Python \<open>str\<close> is modelled as a \<open>string\<close>: \<open>self.path\<close> and the header values are
  decoded from ISO-8859-1 by \<open>http.server\<close>, so each of their characters is one
  8-bit \<open>char\<close>.

  The values that \<open>json.loads\<close> returns and \<open>json.dumps\<close> accepts: \<open>None\<close>, \<open>bool\<close>,
  \<open>int\<close>, \<open>float\<close>, \<open>str\<close>, \<open>list\<close> and \<open>dict\<close> (keys in insertion order, each key once).
  A \<open>float\<close> is held as its \<open>repr\<close> (\<open>nan\<close>, \<open>inf\<close> and \<open>-inf\<close> for the three that are
  not finite); the handlers never compute with a float. A \<open>str\<close> inside such a value
  is a \<open>string\<close> as well, which holds the code points below U+0100.
\<close>

datatype json =
    JNull
  | JBool bool
  | JInt int
  | JFloat string
  | JStr string
  | JList "json list"
  | JDict "(string \<times> json) list"

datatype exn = ValueError | OSError | OverflowError | MemoryError

subsection \<open>Strings\<close>

definition startswith :: "string \<Rightarrow> string \<Rightarrow> bool" where
  "startswith s p = prefix p s"

definition endswith :: "string \<Rightarrow> string \<Rightarrow> bool" where
  "endswith s p = suffix p s"

text \<open>\<open>p in s\<close> on strings: \<open>p\<close> occurs in \<open>s\<close> as a contiguous substring.\<close>

fun contains :: "string \<Rightarrow> string \<Rightarrow> bool" where
  "contains [] p = (p = [])"
| "contains (c # s) p = (prefix p (c # s) \<or> contains s p)"

text \<open>\<open>s.split(sep)\<close> for a one-character separator; the result is never empty.\<close>

fun split :: "char \<Rightarrow> string \<Rightarrow> string list" where
  "split sep [] = [[]]"
| "split sep (c # s) =
     (if c = sep then [] # split sep s
      else (case split sep s of
              w # ws \<Rightarrow> (c # w) # ws
            | [] \<Rightarrow> [[c]]))"

text \<open>\<open>ord(c)\<close>: the code point of a character.\<close>

definition ord :: "char \<Rightarrow> nat" where
  "ord c = of_char c"

definition is_ascii_digit :: "char \<Rightarrow> bool" where
  "is_ascii_digit c = (48 \<le> ord c \<and> ord c \<le> 57)"

text \<open>
  \<open>str.isdigit()\<close>: at least one character, and every character has the Unicode
  property Numeric\_Type=Decimal or Numeric\_Type=Digit. Below U+0100 these are
  \<open>0\<close>..\<open>9\<close> and the superscripts U+00B2, U+00B3 and U+00B9.
\<close>

definition is_unicode_digit :: "char \<Rightarrow> bool" where
  "is_unicode_digit c =
     (is_ascii_digit c \<or> c = CHR 0xB2 \<or> c = CHR 0xB3 \<or> c = CHR 0xB9)"

definition isdigit :: "string \<Rightarrow> bool" where
  "isdigit s = (s \<noteq> [] \<and> list_all is_unicode_digit s)"

text \<open>
  The whitespace that \<open>int()\<close> skips before and after the number: the ASCII
  characters tab to carriage return and space, and, of the characters from U+0080
  to U+00FF, the two Unicode spaces U+0085 and U+00A0. The separators U+001C to
  U+001F, which \<open>str.isspace\<close> accepts, are not among them.
\<close>

definition is_int_space :: "char \<Rightarrow> bool" where
  "is_int_space c =
     ((0x09 \<le> ord c \<and> ord c \<le> 0x0D) \<or> ord c = 0x20 \<or> ord c = 0x85 \<or> ord c = 0xA0)"

definition strip :: "string \<Rightarrow> string" where
  "strip s = rev (dropWhile is_int_space (rev (dropWhile is_int_space s)))"

text \<open>
  The digits of an integer literal with its underscores removed: a digit, then
  digits each preceded by at most one underscore. \<open>None\<close> for anything else.
\<close>

fun digits_of :: "string \<Rightarrow> string option" where
  "digits_of [] = None"
| "digits_of [c] = (if is_ascii_digit c then Some [c] else None)"
| "digits_of (c # d # cs) =
     (if \<not> is_ascii_digit c then None
      else if d = CHR ''_'' then map_option (Cons c) (digits_of cs)
      else map_option (Cons c) (digits_of (d # cs)))"

definition digit_value :: "char \<Rightarrow> nat" where
  "digit_value c = ord c - 48"

definition decimal_value :: "string \<Rightarrow> int" where
  "decimal_value ds = foldl (\<lambda>a c. 10 * a + int (digit_value c)) 0 ds"

text \<open>
  \<open>int(s)\<close> for a \<open>str\<close>: surrounding whitespace, an optional sign, the digits.
  \<open>None\<close> is \<open>ValueError\<close>. \<open>lim\<close> is the interpreter's limit on the number of
  digits (\<open>sys.get_int_max_str_digits()\<close>, 4300 by default where the interpreter
  has the limit; 0 is no limit).
\<close>

definition py_int :: "nat \<Rightarrow> string \<Rightarrow> int option" where
  "py_int lim s =
     (let t = strip s;
          neg = (t \<noteq> [] \<and> hd t = CHR ''-'');
          u = (if t \<noteq> [] \<and> (hd t = CHR ''-'' \<or> hd t = CHR ''+'') then tl t else t)
      in case digits_of u of
           None \<Rightarrow> None
         | Some ds \<Rightarrow>
             if 0 < lim \<and> lim < length ds then None
             else Some (if neg then - decimal_value ds else decimal_value ds))"

definition digit_char :: "nat \<Rightarrow> char" where
  "digit_char n = ''0123456789'' ! n"

fun str_nat :: "nat \<Rightarrow> string" where
  "str_nat n = (if n < 10 then [digit_char n] else str_nat (n div 10) @ [digit_char (n mod 10)])"

declare str_nat.simps [simp del]

text \<open>\<open>str(i)\<close> for an \<open>int\<close>.\<close>

definition str_int :: "int \<Rightarrow> string" where
  "str_int i = (if i < 0 then CHR ''-'' # str_nat (nat (- i)) else str_nat (nat i))"

text \<open>\<open>str.lower()\<close> per character, below U+0100.\<close>

definition lower_char :: "char \<Rightarrow> char" where
  "lower_char c =
     (if (0x41 \<le> ord c \<and> ord c \<le> 0x5A) \<or> (0xC0 \<le> ord c \<and> ord c \<le> 0xDE \<and> ord c \<noteq> 0xD7)
      then char_of (ord c + 32) else c)"

definition lower :: "string \<Rightarrow> string" where
  "lower s = map lower_char s"

subsection \<open>\<open>json.dumps\<close>\<close>

definition hex_digit :: "nat \<Rightarrow> char" where
  "hex_digit n = ''0123456789abcdef'' ! n"

text \<open>
  The encoder's string escaping with \<open>ensure_ascii\<close> (the default): the short
  escapes, printable ASCII as it is, \<open>\u00XX\<close> for the rest.
\<close>

definition escape_char :: "char \<Rightarrow> string" where
  "escape_char c =
     (if c = CHR 0x22 then [CHR 0x5C, CHR 0x22]
      else if c = CHR 0x5C then [CHR 0x5C, CHR 0x5C]
      else if c = CHR 0x0A then [CHR 0x5C, CHR ''n'']
      else if c = CHR 0x0D then [CHR 0x5C, CHR ''r'']
      else if c = CHR 0x09 then [CHR 0x5C, CHR ''t'']
      else if c = CHR 0x08 then [CHR 0x5C, CHR ''b'']
      else if c = CHR 0x0C then [CHR 0x5C, CHR ''f'']
      else if 0x20 \<le> ord c \<and> ord c \<le> 0x7E then [c]
      else [CHR 0x5C, CHR ''u'', CHR ''0'', CHR ''0'',
            hex_digit (ord c div 16), hex_digit (ord c mod 16)])"

definition dumps_str :: "string \<Rightarrow> string" where
  "dumps_str s = CHR 0x22 # concat (map escape_char s) @ [CHR 0x22]"

fun join :: "string \<Rightarrow> string list \<Rightarrow> string" where
  "join sep [] = []"
| "join sep [x] = x"
| "join sep (x # y # ys) = x @ sep @ join sep (y # ys)"

text \<open>
  \<open>json.dumps(data)\<close> with the default separators \<open>', '\<close> and \<open>': '\<close>; a float is
  written as its \<open>repr\<close>, the three that are not finite as \<open>NaN\<close>, \<open>Infinity\<close> and
  \<open>-Infinity\<close>.
\<close>

fun json_dumps :: "json \<Rightarrow> string" where
  "json_dumps JNull = ''null''"
| "json_dumps (JBool b) = (if b then ''true'' else ''false'')"
| "json_dumps (JInt i) = str_int i"
| "json_dumps (JFloat r) =
     (if r = ''nan'' then ''NaN'' else if r = ''inf'' then ''Infinity''
      else if r = ''-inf'' then ''-Infinity'' else r)"
| "json_dumps (JStr s) = dumps_str s"
| "json_dumps (JList xs) = ''['' @ join '', '' (map json_dumps xs) @ '']''"
| "json_dumps (JDict kvs) =
     ''{'' @ join '', '' (map (\<lambda>kv. dumps_str (fst kv) @ '': '' @ json_dumps (snd kv)) kvs) @ ''}''"

text \<open>\<open>d.get(k, default)\<close> on a \<open>dict\<close>.\<close>

definition dict_get :: "(string \<times> json) list \<Rightarrow> string \<Rightarrow> json \<Rightarrow> json" where
  "dict_get d k dflt = (case map_of d k of None \<Rightarrow> dflt | Some v \<Rightarrow> v)"

text \<open>Hashing a value raises \<open>TypeError\<close> for a \<open>list\<close> and for a \<open>dict\<close>.\<close>

fun hashable :: "json \<Rightarrow> bool" where
  "hashable (JList _) = False"
| "hashable (JDict _) = False"
| "hashable _ = True"

section \<open>Requests, responses and the environment\<close>

text \<open>
  What a handler reads of the request: \<open>self.path\<close> (the request target as
  received, query string included), \<open>self.headers.get('Content-Length')\<close>, the
  bytes that arrive on \<open>self.rfile\<close> after the headers, and whether the client
  then closes its side of the connection (\<open>rfile_eof\<close>) or leaves it open with
  nothing more to come.
\<close>

record request =
  rpath :: string
  content_length :: "string option"
  rfile :: string
  rfile_eof :: bool

text \<open>
  What a handler writes: the status line of \<open>send_response\<close>, the headers it sets
  with \<open>send_header\<close> in their order, and the bytes written to \<open>self.wfile\<close>. The
  \<open>Server\<close> and \<open>Date\<close> headers that \<open>send_response\<close> adds itself are left out.
\<close>

record response =
  status :: nat
  headers :: "(string \<times> string) list"
  body :: string

text \<open>
  How a handler call ends: a response of its own, the library's error page
  (\<open>self.send_error(code, message)\<close>), the inherited
  \<open>SimpleHTTPRequestHandler.do_GET\<close> (whose answer is the library's and is not
  modelled), an exception that leaves the handler with nothing written, or a
  read that waits for bytes that never arrive, so that the call does not return.
\<close>

datatype outcome =
    Sent response
  | Send_error nat "string option"
  | Super_do_GET
  | Raised exn
  | Blocked

datatype open_result = Content string | FileNotFoundError | OtherOSError

text \<open>
  The library calls and the operating-system state the handlers depend on, as
  parameters of the model:
  \<^item> \<open>urlparse_path s\<close> is \<open>urllib.parse.urlparse(s).path\<close>, \<open>None\<close> when \<open>urlparse\<close>
    raises \<open>ValueError\<close>;
  \<^item> \<open>json_loads b\<close> is \<open>json.loads(b)\<close>, \<open>None\<close> when it raises;
  \<^item> \<open>path_exists\<close> is \<open>os.path.exists\<close>;
  \<^item> \<open>open_rb f\<close> is \<open>open(f, 'rb')\<close> followed by \<open>read()\<close>;
  \<^item> \<open>int_max_str_digits\<close> is the digit limit of \<open>int()\<close>;
  \<^item> \<open>alloc_bytes n\<close> is what happens when \<open>self.rfile.read(n)\<close> converts \<open>n\<close> to a
    buffer size and allocates its result of \<open>n\<close> bytes: \<open>None\<close> when that succeeds,
    the exception otherwise (\<open>OverflowError\<close> from \<open>2**63 - 33\<close> on with 64-bit sizes,
    \<open>MemoryError\<close> below that when the machine cannot provide the memory).
\<close>

record pyenv =
  urlparse_path :: "string \<Rightarrow> string option"
  json_loads :: "string \<Rightarrow> json option"
  path_exists :: "string \<Rightarrow> bool"
  open_rb :: "string \<Rightarrow> open_result"
  int_max_str_digits :: nat
  alloc_bytes :: "int \<Rightarrow> exn option"

section \<open>The handler \<open>GOACSHandler\<close>\<close>

definition send_json :: "json \<Rightarrow> nat \<Rightarrow> response" where
  "send_json data st =
     (let content = json_dumps data
      in \<lparr>status = st,
          headers = [(''Content-Type'', ''application/json''),
                     (''Content-Length'', str_nat (length content)),
                     (''Access-Control-Allow-Origin'', ''*'')],
          body = content\<rparr>)"

definition serve_file :: "pyenv \<Rightarrow> string \<Rightarrow> outcome" where
  "serve_file env filepath =
     (case open_rb env filepath of
        Content content \<Rightarrow>
          Sent \<lparr>status = 200,
                headers = [(''Content-Type'',
                              if endswith filepath ''.html'' then ''text/html; charset=utf-8''
                              else if endswith filepath ''.css'' then ''text/css''
                              else if endswith filepath ''.js'' then ''application/javascript''
                              else ''application/octet-stream''),
                           (''Content-Length'', str_nat (length content))],
                body = content\<rparr>
      | FileNotFoundError \<Rightarrow> Send_error 404 (Some (''File not found: '' @ filepath))
      | OtherOSError \<Rightarrow> Raised OSError)"

subsection \<open>The literal data of \<open>do_GET\<close>\<close>

text \<open>
  The data passed to \<open>send_json\<close> by each route of \<open>do_GET\<close>, in the order of
  the source. The float literal \<open>106.8650\<close> of the second device is the float whose
  \<open>repr\<close> is \<open>106.865\<close>.
\<close>

definition api_dashboard_stats :: json where
  "api_dashboard_stats =
     JDict [(''totalDevices'', JInt 5), (''onlineDevices'', JInt 3),
            (''offlineDevices'', JInt 2), (''pendingTasks'', JInt 1),
            (''devicesByModel'', JDict [(''HG8245H'', JInt 2), (''F660'', JInt 2), (''AN5506'', JInt 1)])]"

definition device_records :: "json list" where
  "device_records =
     [JDict [(''id'', JInt 1), (''serialNumber'', JStr ''HWTC12345678''),
             (''manufacturer'', JStr ''Huawei''), (''modelName'', JStr ''HG8245H''),
             (''status'', JStr ''online''), (''ipAddress'', JStr ''192.168.1.1''),
             (''lastContact'', JStr ''2026-01-04T22:50:00Z''),
             (''latitude'', JFloat ''-6.2088''), (''longitude'', JFloat ''106.8456''),
             (''address'', JStr ''Jl. Sudirman No. 1, Jakarta'')],
      JDict [(''id'', JInt 2), (''serialNumber'', JStr ''ZTEGC87654321''),
             (''manufacturer'', JStr ''ZTE''), (''modelName'', JStr ''F660''),
             (''status'', JStr ''online''), (''ipAddress'', JStr ''192.168.1.2''),
             (''lastContact'', JStr ''2026-01-04T22:45:00Z''),
             (''latitude'', JFloat ''-6.1751''), (''longitude'', JFloat ''106.865''),
             (''address'', JStr ''Jl. Thamrin No. 10, Jakarta'')],
      JDict [(''id'', JInt 3), (''serialNumber'', JStr ''FHTT11223344''),
             (''manufacturer'', JStr ''FiberHome''), (''modelName'', JStr ''AN5506-04-F''),
             (''status'', JStr ''offline''), (''ipAddress'', JStr ''192.168.1.3''),
             (''lastContact'', JStr ''2026-01-04T20:00:00Z''),
             (''latitude'', JFloat ''-6.2297''), (''longitude'', JFloat ''106.8295''),
             (''address'', JStr ''Jl. Gatot Subroto No. 5, Jakarta'')],
      JDict [(''id'', JInt 4), (''serialNumber'', JStr ''HWTC99887766''),
             (''manufacturer'', JStr ''Huawei''), (''modelName'', JStr ''HG8245H5''),
             (''status'', JStr ''online''), (''ipAddress'', JStr ''192.168.1.4''),
             (''lastContact'', JStr ''2026-01-04T22:52:00Z''),
             (''latitude'', JFloat ''-6.1862''), (''longitude'', JFloat ''106.8225''),
             (''address'', JStr ''Jl. Kebon Sirih No. 15, Jakarta'')],
      JDict [(''id'', JInt 5), (''serialNumber'', JStr ''ZTEGC55443322''),
             (''manufacturer'', JStr ''ZTE''), (''modelName'', JStr ''F670L''),
             (''status'', JStr ''offline''), (''ipAddress'', JStr ''192.168.1.5''),
             (''lastContact'', JStr ''2026-01-04T18:00:00Z''),
             (''latitude'', JFloat ''-6.2615''), (''longitude'', JFloat ''106.8106''),
             (''address'', JStr ''Jl. TB Simatupang No. 22, Jakarta'')]]"

definition api_devices :: json where
  "api_devices = JDict [(''devices'', JList device_records), (''total'', JInt 5)]"

definition device_wifi :: json where
  "device_wifi =
     JDict [(''ssid'', JStr ''MyWiFi_Network''), (''password'', JStr ''password123''),
            (''ssid5g'', JStr ''MyWiFi_5G''), (''password5g'', JStr ''password123''),
            (''channel'', JInt 6), (''enabled'', JBool True)]"

definition device_wan :: json where
  "device_wan =
     JList
     [JDict [(''id'', JInt 1), (''name'', JStr ''wan1_pppoe''),
             (''connectionType'', JStr ''PPPoE''), (''status'', JStr ''Connected''),
             (''vlan'', JInt 100)],
      JDict [(''id'', JInt 2), (''name'', JStr ''wan2_bridge''),
             (''connectionType'', JStr ''Bridge''), (''status'', JStr ''Connected''),
             (''vlan'', JInt 200)]]"

definition device_parameters :: json where
  "device_parameters =
     JList
     [JDict [(''path'', JStr ''InternetGatewayDevice.DeviceInfo.UpTime''),
             (''value'', JStr ''86400'')],
      JDict [(''path'', JStr ''InternetGatewayDevice.DeviceInfo.SoftwareVersion''),
             (''value'', JStr ''V3R019C10S120'')],
      JDict [(''path'', JStr ''InternetGatewayDevice.LANDevice.1.WLANConfiguration.1.SSID''),
             (''value'', JStr ''MyWiFi_Network'')]]"

definition device_pon :: json where
  "device_pon =
     JDict [(''rxPower'', JFloat ''-18.5''), (''txPower'', JFloat ''2.3''),
            (''onuId'', JInt 1), (''distance'', JFloat ''2.5''), (''temperature'', JInt 45),
            (''voltage'', JFloat ''3.3''), (''biasCurrent'', JInt 15)]"

definition device_clients :: json where
  "device_clients =
     JDict [(''clients'', JList
              [JDict [(''name'', JStr ''iPhone 15 Pro''),
                      (''mac'', JStr ''A4:B2:C1:D3:E5:F7''), (''ip'', JStr ''192.168.1.101''),
                      (''type'', JStr ''phone''), (''rssi'', JInt (- 45))],
               JDict [(''name'', JStr ''MacBook Pro''), (''mac'', JStr ''B8:C3:D2:E4:F6:A1''),
                      (''ip'', JStr ''192.168.1.102''), (''type'', JStr ''laptop''),
                      (''rssi'', JInt (- 52))],
               JDict [(''name'', JStr ''Samsung Galaxy Tab''),
                      (''mac'', JStr ''C6:D4:E3:F5:A2:B8''), (''ip'', JStr ''192.168.1.103''),
                      (''type'', JStr ''tablet''), (''rssi'', JInt (- 61))],
               JDict [(''name'', JStr ''Smart TV''), (''mac'', JStr ''D7:E5:F4:A6:B3:C9''),
                      (''ip'', JStr ''192.168.1.104''), (''type'', JStr ''tv''),
                      (''rssi'', JInt (- 38))],
               JDict [(''name'', JStr ''Unknown Device''),
                      (''mac'', JStr ''E8:F6:A5:B7:C4:D2''), (''ip'', JStr ''192.168.1.105''),
                      (''type'', JStr ''other''), (''rssi'', JInt (- 72))]])]"

definition api_packages :: json where
  "api_packages =
     JList
     [JDict [(''id'', JInt 1), (''name'', JStr ''Home Basic''),
             (''description'', JStr ''Basic internet''), (''downloadSpeed'', JInt 10),
             (''uploadSpeed'', JInt 3), (''price'', JInt 150000), (''isActive'', JBool True)],
      JDict [(''id'', JInt 2), (''name'', JStr ''Home Standard''),
             (''description'', JStr ''Standard internet''), (''downloadSpeed'', JInt 20),
             (''uploadSpeed'', JInt 5), (''price'', JInt 250000), (''isActive'', JBool True)],
      JDict [(''id'', JInt 3), (''name'', JStr ''Home Premium''),
             (''description'', JStr ''Premium internet''), (''downloadSpeed'', JInt 50),
             (''uploadSpeed'', JInt 10), (''price'', JInt 400000), (''isActive'', JBool True)],
      JDict [(''id'', JInt 4), (''name'', JStr ''Business''),
             (''description'', JStr ''Business internet''), (''downloadSpeed'', JInt 100),
             (''uploadSpeed'', JInt 20), (''price'', JInt 750000), (''isActive'', JBool True)]]"

definition api_customers :: json where
  "api_customers =
     JDict [(''customers'', JList
              [JDict [(''id'', JInt 1), (''customerCode'', JStr ''CUST-0001''),
                      (''name'', JStr ''John Doe''), (''email'', JStr ''john@email.com''),
                      (''phone'', JStr ''08123456789''), (''status'', JStr ''active''),
                      (''packageId'', JInt 2), (''balance'', JInt 0)],
               JDict [(''id'', JInt 2), (''customerCode'', JStr ''CUST-0002''),
                      (''name'', JStr ''Ahmad Susanto''),
                      (''email'', JStr ''ahmad@email.com''),
                      (''phone'', JStr ''08234567890''), (''status'', JStr ''active''),
                      (''packageId'', JInt 3), (''balance'', JInt (- 250000))],
               JDict [(''id'', JInt 3), (''customerCode'', JStr ''CUST-0003''),
                      (''name'', JStr ''Budi Wijaya''), (''email'', JStr ''budi@email.com''),
                      (''phone'', JStr ''08345678901''), (''status'', JStr ''suspended''),
                      (''packageId'', JInt 1), (''balance'', JInt (- 500000))]]),
            (''total'', JInt 3)]"

definition api_invoices :: json where
  "api_invoices =
     JDict [(''invoices'', JList
              [JDict [(''id'', JInt 1), (''invoiceNo'', JStr ''INV-202601-0001''),
                      (''customerId'', JInt 1), (''total'', JInt 250000),
                      (''status'', JStr ''paid''), (''paidAmount'', JInt 250000),
                      (''dueDate'', JStr ''2026-01-15'')],
               JDict [(''id'', JInt 2), (''invoiceNo'', JStr ''INV-202601-0002''),
                      (''customerId'', JInt 2), (''total'', JInt 400000),
                      (''status'', JStr ''pending''), (''paidAmount'', JInt 0),
                      (''dueDate'', JStr ''2026-01-15'')],
               JDict [(''id'', JInt 3), (''invoiceNo'', JStr ''INV-202601-0003''),
                      (''customerId'', JInt 3), (''total'', JInt 150000),
                      (''status'', JStr ''overdue''), (''paidAmount'', JInt 0),
                      (''dueDate'', JStr ''2026-01-01'')]]),
            (''total'', JInt 3)]"

definition api_payments :: json where
  "api_payments =
     JDict [(''payments'', JList
              [JDict [(''id'', JInt 1), (''paymentNo'', JStr ''PAY-202601-0001''),
                      (''customerId'', JInt 1), (''amount'', JInt 250000),
                      (''paymentMethod'', JStr ''transfer''),
                      (''status'', JStr ''completed''),
                      (''paymentDate'', JStr ''2026-01-03'')],
               JDict [(''id'', JInt 2), (''paymentNo'', JStr ''PAY-202512-0015''),
                      (''customerId'', JInt 2), (''amount'', JInt 400000),
                      (''paymentMethod'', JStr ''cash''), (''status'', JStr ''completed''),
                      (''paymentDate'', JStr ''2026-01-02'')]]),
            (''total'', JInt 2)]"

definition api_billing_stats :: json where
  "api_billing_stats =
     JDict [(''totalCustomers'', JInt 142), (''activeCustomers'', JInt 134),
            (''suspendedCustomers'', JInt 8), (''monthlyRevenue'', JInt 35500000),
            (''pendingInvoices'', JInt 23), (''overdueAmount'', JInt 2500000),
            (''todayPayments'', JInt 1750000)]"

text \<open>The data of the route \<open>/api/devices/...\<close>, given the value computed for \<open>"id"\<close>.\<close>

definition device_detail :: "int \<Rightarrow> json" where
  "device_detail i =
     JDict [(''id'', JInt i), (''serialNumber'', JStr ''HWTC12345678''),
            (''manufacturer'', JStr ''Huawei''), (''modelName'', JStr ''HG8245H''),
            (''hardwareVersion'', JStr ''V300R019''),
            (''softwareVersion'', JStr ''V3R019C10S120''), (''status'', JStr ''online''),
            (''ipAddress'', JStr ''192.168.1.1''),
            (''lastContact'', JStr ''2026-01-04T22:50:00Z'')]"

subsection \<open>\<open>do_GET\<close>\<close>

definition do_GET :: "pyenv \<Rightarrow> request \<Rightarrow> outcome" where
  "do_GET env req =
     (case urlparse_path env (rpath req) of
        None \<Rightarrow> Raised ValueError
      | Some path \<Rightarrow>
          if path = ''/'' \<or> path = ''/index.html'' then serve_file env ''web/templates/index.html''
          else if path = ''/dashboard'' then serve_file env ''web/templates/dashboard.html''
          else if path = ''/devices'' then serve_file env ''web/templates/devices.html''
          else if startswith path ''/device/'' then serve_file env ''web/templates/device-detail.html''
          else if path = ''/provisions'' then serve_file env ''web/templates/provisions.html''
          else if path = ''/map'' then serve_file env ''web/templates/map.html''
          else if path = ''/customers'' then serve_file env ''web/templates/customers.html''
          else if path = ''/billing'' then serve_file env ''web/templates/billing.html''
          else if path = ''/portal'' \<or> path = ''/portal/'' then serve_file env ''web/templates/portal.html''
          else if path = ''/portal/login'' then serve_file env ''web/templates/portal-login.html''
          else if path = ''/packages'' then serve_file env ''web/templates/packages.html''
          else if path = ''/tasks'' then serve_file env ''web/templates/tasks.html''
          else if path = ''/logs'' then serve_file env ''web/templates/logs.html''
          else if path = ''/settings'' then serve_file env ''web/templates/settings.html''
          else if startswith path ''/static/'' then
            (let file_path = ''web'' @ path
             in if path_exists env file_path then serve_file env file_path
                else Send_error 404 None)
          else if path = ''/api/dashboard/stats'' then Sent (send_json api_dashboard_stats 200)
          else if path = ''/api/devices'' then Sent (send_json api_devices 200)
          else if startswith path ''/api/devices/'' \<and> endswith path ''/wifi'' then
            Sent (send_json device_wifi 200)
          else if startswith path ''/api/devices/'' \<and> endswith path ''/wan'' then
            Sent (send_json device_wan 200)
          else if startswith path ''/api/devices/'' \<and> endswith path ''/parameters'' then
            Sent (send_json device_parameters 200)
          else if startswith path ''/api/devices/'' \<and> endswith path ''/pon'' then
            Sent (send_json device_pon 200)
          else if startswith path ''/api/devices/'' \<and> endswith path ''/clients'' then
            Sent (send_json device_clients 200)
          else if startswith path ''/api/devices/'' then
            (let device_id = last (split CHR ''/'' path)
             in case (if isdigit device_id then py_int (int_max_str_digits env) device_id
                      else Some 1) of
                  None \<Rightarrow> Raised ValueError
                | Some i \<Rightarrow> Sent (send_json (device_detail i) 200))
          else if path = ''/api/packages'' then Sent (send_json api_packages 200)
          else if path = ''/api/customers'' then Sent (send_json api_customers 200)
          else if path = ''/api/invoices'' then Sent (send_json api_invoices 200)
          else if path = ''/api/payments'' then Sent (send_json api_payments 200)
          else if path = ''/api/billing/stats'' then Sent (send_json api_billing_stats 200)
          else Super_do_GET)"

subsection \<open>\<open>do_POST\<close>\<close>

text \<open>
  \<open>self.rfile.read(n)\<close> for \<open>n > 0\<close> on the buffered socket reader: it allocates
  its result first, then reads until it has \<open>n\<close> bytes or the stream ends. When
  fewer than \<open>n\<close> bytes arrive and the client keeps the connection open, it waits
  without end (the handler sets no timeout).
\<close>

datatype read_result = Body string | Read_raises exn | Read_blocks

definition rfile_read :: "pyenv \<Rightarrow> request \<Rightarrow> int \<Rightarrow> read_result" where
  "rfile_read env req n =
     (case alloc_bytes env n of
        Some e \<Rightarrow> Read_raises e
      | None \<Rightarrow>
          if n \<le> int (length (rfile req)) then Body (take (nat n) (rfile req))
          else if rfile_eof req then Body (rfile req)
          else Read_blocks)"

text \<open>
  \<open>content_length = int(self.headers.get('Content-Length', 0))\<close> and
  \<open>body = self.rfile.read(content_length) if content_length > 0 else b''\<close>.
  \<open>int\<close> raises \<open>ValueError\<close> on a header that is no integer literal.
\<close>

definition read_body :: "pyenv \<Rightarrow> request \<Rightarrow> read_result" where
  "read_body env req =
     (case (case content_length req of
              None \<Rightarrow> Some 0
            | Some h \<Rightarrow> py_int (int_max_str_digits env) h) of
        None \<Rightarrow> Read_raises ValueError
      | Some n \<Rightarrow> if 0 < n then rfile_read env req n else Body [])"

definition login_ok :: json where
  "login_ok =
     JDict [(''success'', JBool True), (''token'', JStr ''mock-jwt-token-12345''),
            (''user'', JDict [(''username'', JStr ''admin''), (''role'', JStr ''admin'')])]"

definition invalid_credentials :: json where
  "invalid_credentials = JDict [(''success'', JBool False), (''error'', JStr ''Invalid credentials'')]"

definition invalid_request :: json where
  "invalid_request = JDict [(''success'', JBool False), (''error'', JStr ''Invalid request'')]"

definition invalid_username_or_password :: json where
  "invalid_username_or_password =
     JDict [(''success'', JBool False), (''error'', JStr ''Invalid username or password'')]"

text \<open>
  The branch \<open>/api/auth/login\<close>. The bare \<open>except\<close> answers 400 when \<open>json.loads\<close>
  raises and when \<open>data.get\<close> raises \<open>AttributeError\<close>, which it does for every
  value that is not a \<open>dict\<close>.
\<close>

definition auth_login :: "pyenv \<Rightarrow> string \<Rightarrow> response" where
  "auth_login env b =
     (case json_loads env b of
        None \<Rightarrow> send_json invalid_request 400
      | Some (JDict data) \<Rightarrow>
          if dict_get data ''username'' JNull = JStr ''admin''
             \<and> dict_get data ''password'' JNull = JStr ''admin123''
          then send_json login_ok 200
          else send_json invalid_credentials 401
      | Some _ \<Rightarrow> send_json invalid_request 400)"

record user =
  user_id :: int
  user_code :: string
  user_name :: string
  user_password :: string

definition valid_users :: "(string \<times> user) list" where
  "valid_users =
     [(''johndoe'', \<lparr>user_id = 1, user_code = ''CUST-0001'', user_name = ''John Doe'',
                     user_password = ''password123''\<rparr>),
      (''CUST-0001'', \<lparr>user_id = 1, user_code = ''CUST-0001'', user_name = ''John Doe'',
                       user_password = ''password123''\<rparr>),
      (''ahmad'', \<lparr>user_id = 2, user_code = ''CUST-0002'', user_name = ''Ahmad Susanto'',
                   user_password = ''password123''\<rparr>),
      (''CUST-0002'', \<lparr>user_id = 2, user_code = ''CUST-0002'', user_name = ''Ahmad Susanto'',
                       user_password = ''password123''\<rparr>)]"

definition portal_login_ok :: "string \<Rightarrow> user \<Rightarrow> json" where
  "portal_login_ok username u =
     JDict [(''success'', JBool True),
            (''token'', JStr (''customer-'' @ str_int (user_id u) @ ''-mock-token'')),
            (''customer'',
               JDict [(''id'', JInt (user_id u)), (''customerCode'', JStr (user_code u)),
                      (''name'', JStr (user_name u)),
                      (''email'', JStr (lower username @ ''@email.com'')),
                      (''status'', JStr ''active'')])]"

text \<open>
  The branch \<open>/api/portal/auth/login\<close>. \<open>username in valid_users\<close> hashes the
  username: a \<open>list\<close> or a \<open>dict\<close> raises \<open>TypeError\<close>, which the bare \<open>except\<close>
  answers with 400; any other value that is not a \<open>str\<close> is no key of the dictionary.
\<close>

definition portal_auth_login :: "pyenv \<Rightarrow> string \<Rightarrow> response" where
  "portal_auth_login env b =
     (case json_loads env b of
        None \<Rightarrow> send_json invalid_request 400
      | Some (JDict data) \<Rightarrow>
          (let username = dict_get data ''username'' (JStr []);
               password = dict_get data ''password'' (JStr [])
           in if \<not> hashable username then send_json invalid_request 400
              else (case username of
                      JStr name \<Rightarrow>
                        (case map_of valid_users name of
                           Some u \<Rightarrow>
                             if JStr (user_password u) = password
                             then send_json (portal_login_ok name u) 200
                             else send_json invalid_username_or_password 401
                         | None \<Rightarrow> send_json invalid_username_or_password 401)
                    | _ \<Rightarrow> send_json invalid_username_or_password 401))
      | Some _ \<Rightarrow> send_json invalid_request 400)"

definition do_POST :: "pyenv \<Rightarrow> request \<Rightarrow> outcome" where
  "do_POST env req =
     (case urlparse_path env (rpath req) of
        None \<Rightarrow> Raised ValueError
      | Some path \<Rightarrow>
          (case read_body env req of
             Read_raises e \<Rightarrow> Raised e
           | Read_blocks \<Rightarrow> Blocked
           | Body b \<Rightarrow>
               if path = ''/api/auth/login'' then Sent (auth_login env b)
               else if path = ''/api/portal/auth/login'' then Sent (portal_auth_login env b)
               else if path = ''/api/auth/logout'' \<or> path = ''/api/portal/auth/logout'' then
                 Sent (send_json (JDict [(''success'', JBool True)]) 200)
               else if contains path ''/reboot'' \<or> contains path ''/refresh'' then
                 Sent (send_json (JDict [(''success'', JBool True),
                                         (''message'', JStr ''Command queued'')]) 200)
               else if path = ''/api/devices'' then
                 Sent (send_json (JDict [(''success'', JBool True), (''id'', JInt 6)]) 200)
               else Sent (send_json (JDict [(''success'', JBool True)]) 200)))"

subsection \<open>\<open>do_PUT\<close> and the dispatch on the method\<close>

definition do_PUT :: "pyenv \<Rightarrow> request \<Rightarrow> outcome" where
  "do_PUT env req =
     Sent (send_json (JDict [(''success'', JBool True), (''message'', JStr ''Updated'')]) 200)"

text \<open>
  \<open>BaseHTTPRequestHandler\<close> calls \<open>do_GET\<close>, \<open>do_POST\<close> or \<open>do_PUT\<close> by the request's
  method. The class defines no other handler of its own.
\<close>

datatype http_method = GET | POST | PUT

fun handle :: "pyenv \<Rightarrow> http_method \<Rightarrow> request \<Rightarrow> outcome" where
  "handle env GET req = do_GET env req"
| "handle env POST req = do_POST env req"
| "handle env PUT req = do_PUT env req"

text \<open>The status code a client receives, when the handler answers at all.\<close>

fun status_of :: "outcome \<Rightarrow> nat option" where
  "status_of (Sent r) = Some (status r)"
| "status_of (Send_error c m) = Some c"
| "status_of Super_do_GET = None"
| "status_of (Raised e) = None"
| "status_of Blocked = None"

text \<open>The bytes written to \<open>self.wfile\<close>, when the handler sends a response of its own.\<close>

fun body_of :: "outcome \<Rightarrow> string option" where
  "body_of (Sent r) = Some (body r)"
| "body_of (Send_error c m) = None"
| "body_of Super_do_GET = None"
| "body_of (Raised e) = None"
| "body_of Blocked = None"

section \<open>An environment and requests for the examples\<close>

text \<open>
  \<open>example_loads\<close> is \<open>json.loads\<close> on the request bodies of the examples:
  \<^item> the five listed bodies, which it returns as a \<open>dict\<close>; the last of them is not
    valid JSON (\<open>NaN\<close> is no JSON value), and \<open>json.loads\<close> accepts it all the same;
  \<^item> \<open>big_number_body\<close>, a valid JSON object whose member \<open>n\<close> is an integer of 4301
    digits, on which \<open>json.loads\<close> raises \<open>ValueError\<close> where \<open>int\<close> has its limit of
    4300 digits;
  \<^item> \<open>{"username": \<close> and the empty body, which are not JSON and on which it raises.

  \<open>example_env\<close> reads request targets of the form \<open>path?query\<close>, whose
  \<open>urlparse(...).path\<close> is the part before the \<open>?\<close>; it has one static file, and it
  can allocate the result of every read of less than \<open>2**31\<close> bytes (\<open>MemoryError\<close>
  from there to \<open>2**63 - 34\<close>, \<open>OverflowError\<close> above).
\<close>

definition example_loads :: "string \<Rightarrow> json option" where
  \<open>example_loads =
     map_of
       [(''{"username": "admin", "password": "admin123"}'',
           JDict [(''username'', JStr ''admin''), (''password'', JStr ''admin123'')]),
        (''{"username": "admin", "password": "wrong"}'',
           JDict [(''username'', JStr ''admin''), (''password'', JStr ''wrong'')]),
        (''{"username": "johndoe", "password": "password123"}'',
           JDict [(''username'', JStr ''johndoe''), (''password'', JStr ''password123'')]),
        (''{"username": [], "password": "password123"}'',
           JDict [(''username'', JList []), (''password'', JStr ''password123'')]),
        (''{"username": "admin", "password": "admin123", "x": NaN}'',
           JDict [(''username'', JStr ''admin''), (''password'', JStr ''admin123''),
                  (''x'', JFloat ''nan'')])]\<close>

definition big_number_body :: string where
  \<open>big_number_body =
     ''{"username": "admin", "password": "admin123", "n": '' @ replicate 4301 (CHR ''1'') @ ''}''\<close>

definition example_env :: pyenv where
  "example_env =
     \<lparr>urlparse_path = (\<lambda>s. Some (takeWhile (\<lambda>c. c \<noteq> CHR ''?'') s)),
      json_loads = example_loads,
      path_exists = (\<lambda>f. f = ''web/static/app.js''),
      open_rb = (\<lambda>f. if f = ''web/static/app.js'' then Content ''// app'' else FileNotFoundError),
      int_max_str_digits = 4300,
      alloc_bytes = (\<lambda>n. if n < 2147483648 then None
                         else if n < 9223372036854775775 then Some MemoryError
                         else Some OverflowError)\<rparr>"

text \<open>
  A request without a body, and a request that sends the body \<open>b\<close> with its length
  as \<open>Content-Length\<close>; both leave the connection open.
\<close>

definition get_request :: "string \<Rightarrow> request" where
  "get_request target =
     \<lparr>rpath = target, content_length = None, rfile = [], rfile_eof = False\<rparr>"

definition post_request :: "string \<Rightarrow> string \<Rightarrow> request" where
  "post_request target b =
     \<lparr>rpath = target, content_length = Some (str_nat (length b)), rfile = b,
      rfile_eof = False\<rparr>"

section \<open>Serialised responses\<close>

lemmas dumps_simps = send_json_def dumps_str_def escape_char_def ord_def str_nat.simps
  digit_char_def str_int_def

lemma endswith_append: "endswith (a @ b) b"
  by (simp add: endswith_def suffix_def)

lemma status_send_json: "status (send_json data st) = st"
  by (simp add: send_json_def Let_def)

lemma send_json_invalid_request:
  \<open>send_json invalid_request 400 =
     \<lparr>status = 400,
       headers = [(''Content-Type'', ''application/json''), (''Content-Length'', ''46''),
                  (''Access-Control-Allow-Origin'', ''*'')],
       body = ''{"success": false, "error": "Invalid request"}''\<rparr>\<close>
  by (simp add: invalid_request_def dumps_simps)

lemma send_json_login_ok:
  \<open>send_json login_ok 200 =
     \<lparr>status = 200,
       headers = [(''Content-Type'', ''application/json''), (''Content-Length'', ''98''),
                  (''Access-Control-Allow-Origin'', ''*'')],
       body = ''{"success": true, "token": "mock-jwt-token-12345", "user": {"username": "admin", "role": "admin"}}''\<rparr>\<close>
  by (simp add: login_ok_def dumps_simps)

lemma send_json_invalid_credentials:
  \<open>send_json invalid_credentials 401 =
     \<lparr>status = 401,
       headers = [(''Content-Type'', ''application/json''), (''Content-Length'', ''50''),
                  (''Access-Control-Allow-Origin'', ''*'')],
       body = ''{"success": false, "error": "Invalid credentials"}''\<rparr>\<close>
  by (simp add: invalid_credentials_def dumps_simps)

section \<open>The login endpoint \<open>/api/auth/login\<close>\<close>

text \<open>
  The body \<open>big_number_body\<close> is a valid JSON object with the username \<open>admin\<close> and
  the password \<open>admin123\<close>; \<open>json.loads\<close> raises on its 4301-digit integer, and the
  POST to \<open>/api/auth/login\<close> is answered with status 400.
\<close>

theorem auth_login_valid_json_rejected:
  \<open>json_loads example_env big_number_body = None
   \<and> do_POST example_env
        \<lparr>rpath = ''/api/auth/login'', content_length = Some ''4353'',
         rfile = big_number_body, rfile_eof = False\<rparr> =
     Sent \<lparr>status = 400,
           headers = [(''Content-Type'', ''application/json''), (''Content-Length'', ''46''),
                      (''Access-Control-Allow-Origin'', ''*'')],
           body = ''{"success": false, "error": "Invalid request"}''\<rparr>\<close>
proof -
  let ?r = "\<lparr>rpath = ''/api/auth/login'', content_length = Some ''4353'',
             rfile = big_number_body, rfile_eof = False\<rparr>"
  have len: "length big_number_body = 4353"
    by (simp add: big_number_body_def)
  have n: "py_int 4300 ''4353'' = Some 4353"
    by code_simp
  have b: "read_body example_env ?r = Body big_number_body"
    by (simp add: read_body_def rfile_read_def example_env_def n len)
  have l: "json_loads example_env big_number_body = None"
    by (simp add: example_env_def example_loads_def big_number_body_def)
  have p: "urlparse_path example_env (rpath ?r) = Some ''/api/auth/login''"
    by (simp add: example_env_def)
  have "do_POST example_env ?r = Sent (auth_login example_env big_number_body)"
    using p b by (simp add: do_POST_def)
  with l show ?thesis
    by (simp add: auth_login_def send_json_invalid_request)
qed

text \<open>
  Claim C1, amended. A POST to \<open>/api/auth/login\<close> whose body the handler reads and
  \<open>json.loads\<close> returns as a JSON object is answered with status 200, \<open>success\<close>
  true, the token \<open>mock-jwt-token-12345\<close> and a user object when the object's
  \<open>username\<close> is \<open>"admin"\<close> and its \<open>password\<close> is \<open>"admin123"\<close>, and with status 401
  and \<open>success\<close> false for all other contents of the object, missing fields
  included.
\<close>

theorem auth_login_credentials:
  assumes "urlparse_path env (rpath req) = Some ''/api/auth/login''"
      and "read_body env req = Body b"
      and "json_loads env b = Some (JDict data)"
  shows \<open>do_POST env req =
     (if dict_get data ''username'' JNull = JStr ''admin''
         \<and> dict_get data ''password'' JNull = JStr ''admin123''
      then Sent \<lparr>status = 200,
             headers = [(''Content-Type'', ''application/json''), (''Content-Length'', ''98''),
                        (''Access-Control-Allow-Origin'', ''*'')],
             body = ''{"success": true, "token": "mock-jwt-token-12345", "user": {"username": "admin", "role": "admin"}}''\<rparr>
      else Sent \<lparr>status = 401,
             headers = [(''Content-Type'', ''application/json''), (''Content-Length'', ''50''),
                        (''Access-Control-Allow-Origin'', ''*'')],
             body = ''{"success": false, "error": "Invalid credentials"}''\<rparr>)\<close>
proof -
  have "do_POST env req = Sent (auth_login env b)"
    using assms by (simp add: do_POST_def)
  then show ?thesis
    using assms(3)
    by (simp add: auth_login_def send_json_login_ok send_json_invalid_credentials)
qed

theorem auth_login_credentials_witness:
  \<open>do_POST example_env
       (post_request ''/api/auth/login'' ''{"username": "admin", "password": "admin123"}'') =
      Sent \<lparr>status = 200,
             headers = [(''Content-Type'', ''application/json''), (''Content-Length'', ''98''),
                        (''Access-Control-Allow-Origin'', ''*'')],
             body = ''{"success": true, "token": "mock-jwt-token-12345", "user": {"username": "admin", "role": "admin"}}''\<rparr>
   \<and> do_POST example_env
       (post_request ''/api/auth/login'' ''{"username": "admin", "password": "wrong"}'') =
      Sent \<lparr>status = 401,
             headers = [(''Content-Type'', ''application/json''), (''Content-Length'', ''50''),
                        (''Access-Control-Allow-Origin'', ''*'')],
             body = ''{"success": false, "error": "Invalid credentials"}''\<rparr>\<close>
proof -
  let ?good = \<open>''{"username": "admin", "password": "admin123"}''\<close>
  let ?bad = \<open>''{"username": "admin", "password": "wrong"}''\<close>
  have p: "urlparse_path example_env (rpath (post_request ''/api/auth/login'' c))
             = Some ''/api/auth/login''" for c
    by (simp add: example_env_def post_request_def)
  have b1: "read_body example_env (post_request ''/api/auth/login'' ?good) = Body ?good"
    by code_simp
  have b2: "read_body example_env (post_request ''/api/auth/login'' ?bad) = Body ?bad"
    by code_simp
  have l1: "json_loads example_env ?good
              = Some (JDict [(''username'', JStr ''admin''), (''password'', JStr ''admin123'')])"
    by code_simp
  have l2: "json_loads example_env ?bad
              = Some (JDict [(''username'', JStr ''admin''), (''password'', JStr ''wrong'')])"
    by code_simp
  from auth_login_credentials [OF p b1 l1] auth_login_credentials [OF p b2 l2]
  show ?thesis
    by (simp add: dict_get_def)
qed




section \<open>The device routes of \<open>do_GET\<close>\<close>

text \<open>
  The body of \<open>GET /api/devices\<close> is a JSON object, not a JSON array: its text
  begins with \<open>{"devices": [\<close>.
\<close>

theorem api_devices_not_array:
  \<open>map_option (take 13) (body_of (do_GET example_env (get_request ''/api/devices'')))
     = Some ''{"devices": [''
   \<and> map_option (take 1) (body_of (do_GET example_env (get_request ''/api/devices'')))
     \<noteq> Some ''[''\<close>
  by code_simp

text \<open>
  Claim C2, amended. A GET of the exact path \<open>/api/devices\<close> is answered with the
  JSON object whose member \<open>devices\<close> is the array of the 5 literal device
  records and whose member \<open>total\<close> is 5.
\<close>

theorem api_devices_envelope:
  assumes "urlparse_path env (rpath req) = Some ''/api/devices''"
  shows "do_GET env req =
           Sent (send_json (JDict [(''devices'', JList device_records), (''total'', JInt 5)]) 200)
         \<and> length device_records = 5"
  using assms by (simp add: do_GET_def startswith_def api_devices_def device_records_def)

theorem api_devices_envelope_witness:
  "urlparse_path example_env (rpath (get_request ''/api/devices?page=2'')) = Some ''/api/devices''
   \<and> do_GET example_env (get_request ''/api/devices?page=2'') =
       Sent (send_json (JDict [(''devices'', JList device_records), (''total'', JInt 5)]) 200)
   \<and> length device_records = 5"
proof -
  have h: "urlparse_path example_env (rpath (get_request ''/api/devices?page=2''))
             = Some ''/api/devices''"
    by (simp add: example_env_def get_request_def)
  from h api_devices_envelope [OF h] show ?thesis by simp
qed

text \<open>
  Claim C4. For every id string, a GET of \<open>/api/devices/<id>/wifi\<close> is answered
  with status 200 and the same WiFi credential object, whatever the id.
\<close>

theorem device_wifi_fixed:
  assumes "urlparse_path env (rpath req) = Some (''/api/devices/'' @ i @ ''/wifi'')"
  shows \<open>do_GET env req =
     Sent \<lparr>status = 200,
           headers = [(''Content-Type'', ''application/json''), (''Content-Length'', ''136''),
                      (''Access-Control-Allow-Origin'', ''*'')],
           body = ''{"ssid": "MyWiFi_Network", "password": "password123", "ssid5g": "MyWiFi_5G", "password5g": "password123", "channel": 6, "enabled": true}''\<rparr>\<close>
proof -
  have "endswith (''/api/devices/'' @ i @ ''/wifi'') ''/wifi''"
    using endswith_append [of "''/api/devices/'' @ i" "''/wifi''"] by simp
  then have "do_GET env req = Sent (send_json device_wifi 200)"
    using assms by (simp add: do_GET_def startswith_def)
  then show ?thesis
    by (simp add: device_wifi_def dumps_simps)
qed

theorem device_wifi_fixed_witness:
  \<open>urlparse_path example_env (rpath (get_request ''/api/devices/42/wifi?band=5''))
     = Some (''/api/devices/'' @ ''42'' @ ''/wifi'')
   \<and> do_GET example_env (get_request ''/api/devices/42/wifi?band=5'') =
     Sent \<lparr>status = 200,
           headers = [(''Content-Type'', ''application/json''), (''Content-Length'', ''136''),
                      (''Access-Control-Allow-Origin'', ''*'')],
           body = ''{"ssid": "MyWiFi_Network", "password": "password123", "ssid5g": "MyWiFi_5G", "password5g": "password123", "channel": 6, "enabled": true}''\<rparr>\<close>
proof -
  have h: "urlparse_path example_env (rpath (get_request ''/api/devices/42/wifi?band=5''))
             = Some (''/api/devices/'' @ ''42'' @ ''/wifi'')"
    by (simp add: example_env_def get_request_def)
  from h device_wifi_fixed [OF h] show ?thesis by simp
qed

section \<open>\<open>do_PUT\<close>\<close>

text \<open>
  Claim C8. For every path and every request body, a PUT is answered with status
  200 and the body \<open>{"success": true, "message": "Updated"}\<close>.
\<close>

theorem do_PUT_fixed:
  \<open>handle env PUT req =
     Sent \<lparr>status = 200,
           headers = [(''Content-Type'', ''application/json''), (''Content-Length'', ''39''),
                      (''Access-Control-Allow-Origin'', ''*'')],
           body = ''{"success": true, "message": "Updated"}''\<rparr>\<close>
  by (simp add: do_PUT_def dumps_simps)

theorem do_PUT_fixed_witness:
  \<open>handle example_env PUT (post_request ''/api/devices/3?x=1'' ''{"ssid": "new"}'') =
     Sent \<lparr>status = 200,
           headers = [(''Content-Type'', ''application/json''), (''Content-Length'', ''39''),
                      (''Access-Control-Allow-Origin'', ''*'')],
           body = ''{"success": true, "message": "Updated"}''\<rparr>\<close>
  using do_PUT_fixed [of example_env \<open>post_request ''/api/devices/3?x=1'' ''{"ssid": "new"}''\<close>]
  by simp

section \<open>Case analysis of the handlers\<close>

text \<open>
  Every property of what a handler can answer is proved once per kind of
  answer: a property that holds of each of them holds of the handler's result.
\<close>

lemma headers_send_json:
  "headers (send_json data st) =
     [(''Content-Type'', ''application/json''),
      (''Content-Length'', str_nat (length (json_dumps data))),
      (''Access-Control-Allow-Origin'', ''*'')]"
  by (simp add: send_json_def Let_def)

lemma do_GET_cases_path:
  assumes none: "urlparse_path env (rpath req) = None \<Longrightarrow> P (Raised ValueError)"
      and template: "\<And>path f. urlparse_path env (rpath req) = Some path \<Longrightarrow>
             startswith f ''web/templates/'' \<Longrightarrow> P (serve_file env f)"
      and static: "\<And>path. urlparse_path env (rpath req) = Some path \<Longrightarrow>
             startswith path ''/static/'' \<Longrightarrow> path_exists env (''web'' @ path) \<Longrightarrow>
             P (serve_file env (''web'' @ path))"
      and missing: "\<And>path. urlparse_path env (rpath req) = Some path \<Longrightarrow>
             startswith path ''/static/'' \<Longrightarrow> \<not> path_exists env (''web'' @ path) \<Longrightarrow>
             P (Send_error 404 None)"
      and json: "\<And>data. P (Sent (send_json data 200))"
      and raised: "P (Raised ValueError)"
      and super: "P Super_do_GET"
  shows "P (do_GET env req)"
proof (cases "urlparse_path env (rpath req)")
  case None
  with none show ?thesis by (simp only: do_GET_def option.case)
next
  case (Some path)
  have step: "\<And>c a b. (c \<Longrightarrow> P a) \<Longrightarrow> (\<not> c \<Longrightarrow> P b) \<Longrightarrow> P (if c then a else b)"
    by simp
  have detail: "P (case x of None \<Rightarrow> Raised ValueError
                   | Some i \<Rightarrow> Sent (send_json (device_detail i) 200))" for x
    by (cases x) (simp_all only: option.case json raised)
  show ?thesis
    unfolding do_GET_def Some option.case Let_def
    by (intro step detail;
        (rule json raised super
         | (rule static [OF Some]; assumption)
         | (rule missing [OF Some]; assumption)
         | (rule template [OF Some], simp add: startswith_def)))
qed

lemma do_GET_cases:
  assumes "\<And>f. P (serve_file env f)"
      and "\<And>f. \<not> path_exists env f \<Longrightarrow> P (Send_error 404 None)"
      and "\<And>data. P (Sent (send_json data 200))"
      and "P (Raised ValueError)"
      and "P Super_do_GET"
  shows "P (do_GET env req)"
  by (rule do_GET_cases_path) (rule assms | assumption)+

lemma auth_login_cases:
  assumes "\<And>data. P (send_json data 200)"
      and "\<And>data. P (send_json data 400)"
      and "\<And>data. P (send_json data 401)"
  shows "P (auth_login env b)"
  unfolding auth_login_def by (simp add: assms split: option.split json.split)

lemma portal_auth_login_cases:
  assumes "\<And>data. P (send_json data 200)"
      and "\<And>data. P (send_json data 400)"
      and "\<And>data. P (send_json data 401)"
  shows "P (portal_auth_login env b)"
  unfolding portal_auth_login_def by (simp add: assms Let_def split: option.split json.split)

lemma do_POST_cases_path:
  assumes none: "urlparse_path env (rpath req) = None \<Longrightarrow> P (Raised ValueError)"
      and raises: "\<And>e. read_body env req = Read_raises e \<Longrightarrow> P (Raised e)"
      and blocks: "read_body env req = Read_blocks \<Longrightarrow> P Blocked"
      and login: "\<And>b. urlparse_path env (rpath req) = Some ''/api/auth/login'' \<Longrightarrow>
             read_body env req = Body b \<Longrightarrow> P (Sent (auth_login env b))"
      and portal: "\<And>b. urlparse_path env (rpath req) = Some ''/api/portal/auth/login'' \<Longrightarrow>
             read_body env req = Body b \<Longrightarrow> P (Sent (portal_auth_login env b))"
      and other: "\<And>data. P (Sent (send_json data 200))"
  shows "P (do_POST env req)"
proof (cases "urlparse_path env (rpath req)")
  case None
  with none show ?thesis by (simp only: do_POST_def option.case)
next
  case (Some path)
  show ?thesis
  proof (cases "read_body env req")
    case (Read_raises e)
    with raises show ?thesis by (simp only: do_POST_def Some option.case read_result.case)
  next
    case Read_blocks
    with blocks show ?thesis by (simp only: do_POST_def Some option.case read_result.case)
  next
    case (Body b)
    have step: "\<And>c a b. (c \<Longrightarrow> P a) \<Longrightarrow> (\<not> c \<Longrightarrow> P b) \<Longrightarrow> P (if c then a else b)"
      by simp
    have l: "P (Sent (auth_login env b))" if "path = ''/api/auth/login''"
      using that Some Body by (intro login) simp_all
    have p: "P (Sent (portal_auth_login env b))" if "path = ''/api/portal/auth/login''"
      using that Some Body by (intro portal) simp_all
    show ?thesis
      unfolding do_POST_def Some Body option.case read_result.case
      by (intro step; (rule other | (rule l, assumption) | (rule p, assumption)))
  qed
qed

lemma do_POST_cases:
  assumes "\<And>data. P (Sent (send_json data 200))"
      and "\<And>data. P (Sent (send_json data 400))"
      and "\<And>data. P (Sent (send_json data 401))"
      and "\<And>e. P (Raised e)"
      and "P Blocked"
  shows "P (do_POST env req)"
proof (rule do_POST_cases_path)
  show "P (Sent (auth_login env b))" for b
    using assms(1-3) by (intro auth_login_cases [where P = "\<lambda>r. P (Sent r)"]) simp_all
  show "P (Sent (portal_auth_login env b))" for b
    using assms(1-3) by (intro portal_auth_login_cases [where P = "\<lambda>r. P (Sent r)"]) simp_all
qed (rule assms)+

lemma serve_file_not_json:
  assumes "serve_file env f = Sent r"
  shows "(''Content-Type'', ''application/json'') \<notin> set (headers r)"
  using assms by (auto simp add: serve_file_def split: open_result.splits if_splits)


section \<open>All routes and methods\<close>

text \<open>
  Claim C7. \<open>send_json\<close> attaches \<open>Content-Type: application/json\<close> and
  \<open>Access-Control-Allow-Origin: *\<close> to every response it builds, whatever the data
  and the status; and every response of \<open>do_GET\<close>, \<open>do_POST\<close> and \<open>do_PUT\<close> whose
  content type is \<open>application/json\<close> carries the CORS header.
\<close>

theorem json_responses_cors:
  "(''Content-Type'', ''application/json'') \<in> set (headers (send_json data st))
   \<and> (''Access-Control-Allow-Origin'', ''*'') \<in> set (headers (send_json data st))
   \<and> (handle env m req = Sent r \<and> (''Content-Type'', ''application/json'') \<in> set (headers r)
        \<longrightarrow> (''Access-Control-Allow-Origin'', ''*'') \<in> set (headers r))"
proof -
  let ?P = "\<lambda>out. out = Sent r \<and> (''Content-Type'', ''application/json'') \<in> set (headers r)
              \<longrightarrow> (''Access-Control-Allow-Origin'', ''*'') \<in> set (headers r)"
  have j: "?P (Sent (send_json d s))" for d s
    by (auto simp add: headers_send_json)
  have "?P (handle env m req)"
  proof (cases m)
    case GET
    have "?P (do_GET env req)"
      by (rule do_GET_cases) (use j serve_file_not_json in auto)
    with GET show ?thesis by simp
  next
    case POST
    have "?P (do_POST env req)"
      by (rule do_POST_cases) (use j in auto)
    with POST show ?thesis by simp
  next
    case PUT
    with j show ?thesis by (simp add: do_PUT_def)
  qed
  then show ?thesis by (simp add: headers_send_json)
qed

theorem json_responses_cors_witness:
  "handle example_env GET (get_request ''/api/customers?page=1'') = Sent (send_json api_customers 200)
   \<and> (''Content-Type'', ''application/json'') \<in> set (headers (send_json api_customers 200))
   \<and> (''Access-Control-Allow-Origin'', ''*'') \<in> set (headers (send_json api_customers 200))"
proof -
  have h: "handle example_env GET (get_request ''/api/customers?page=1'')
             = Sent (send_json api_customers 200)"
    by (simp add: do_GET_def example_env_def get_request_def startswith_def)
  from h json_responses_cors [of api_customers 200 example_env GET "get_request ''/api/customers?page=1''"
                "send_json api_customers 200"]
  show ?thesis by simp
qed

section \<open>The portal login endpoint \<open>/api/portal/auth/login\<close>\<close>

lemma map_of_valid_users:
  "map_of valid_users name =
     (if name = ''johndoe'' \<or> name = ''CUST-0001''
      then Some \<lparr>user_id = 1, user_code = ''CUST-0001'', user_name = ''John Doe'',
                  user_password = ''password123''\<rparr>
      else if name = ''ahmad'' \<or> name = ''CUST-0002''
      then Some \<lparr>user_id = 2, user_code = ''CUST-0002'', user_name = ''Ahmad Susanto'',
                  user_password = ''password123''\<rparr>
      else None)"
  by (simp add: valid_users_def)

lemma str_int_1: "str_int 1 = ''1''"
  by (simp add: str_int_def str_nat.simps digit_char_def)

lemma str_int_2: "str_int 2 = ''2''"
  by (simp add: str_int_def str_nat.simps digit_char_def)

lemma portal_auth_login_dict:
  assumes "json_loads env b = Some (JDict data)"
      and "username = dict_get data ''username'' (JStr [])"
      and "password = dict_get data ''password'' (JStr [])"
  shows "(username = JStr name \<and> (name = ''johndoe'' \<or> name = ''CUST-0001'')
            \<and> password = JStr ''password123'' \<longrightarrow>
          portal_auth_login env b =
            (send_json
              (JDict [(''success'', JBool True), (''token'', JStr ''customer-1-mock-token''),
                      (''customer'',
                         JDict [(''id'', JInt 1), (''customerCode'', JStr ''CUST-0001''),
                                (''name'', JStr ''John Doe''),
                                (''email'', JStr (lower name @ ''@email.com'')),
                                (''status'', JStr ''active'')])]) 200))
       \<and> (username = JStr name \<and> (name = ''ahmad'' \<or> name = ''CUST-0002'')
            \<and> password = JStr ''password123'' \<longrightarrow>
          portal_auth_login env b =
            (send_json
              (JDict [(''success'', JBool True), (''token'', JStr ''customer-2-mock-token''),
                      (''customer'',
                         JDict [(''id'', JInt 2), (''customerCode'', JStr ''CUST-0002''),
                                (''name'', JStr ''Ahmad Susanto''),
                                (''email'', JStr (lower name @ ''@email.com'')),
                                (''status'', JStr ''active'')])]) 200))
       \<and> (hashable username
            \<and> (username \<notin> {JStr ''johndoe'', JStr ''CUST-0001'', JStr ''ahmad'', JStr ''CUST-0002''}
                 \<or> password \<noteq> JStr ''password123'') \<longrightarrow>
          portal_auth_login env b =
            (send_json (JDict [(''success'', JBool False),
                                    (''error'', JStr ''Invalid username or password'')]) 401))
       \<and> (\<not> hashable username \<longrightarrow>
          portal_auth_login env b =
            (send_json (JDict [(''success'', JBool False),
                                    (''error'', JStr ''Invalid request'')]) 400))
       \<and> (status (portal_auth_login env b) = 200 \<longleftrightarrow>
            username \<in> {JStr ''johndoe'', JStr ''CUST-0001'', JStr ''ahmad'', JStr ''CUST-0002''}
            \<and> password = JStr ''password123'')"
proof -
  have portal: "portal_auth_login env b =
     (if \<not> hashable username then send_json invalid_request 400
      else (case username of
              JStr name \<Rightarrow>
                (case map_of valid_users name of
                   Some u \<Rightarrow>
                     if JStr (user_password u) = password
                     then send_json (portal_login_ok name u) 200
                     else send_json invalid_username_or_password 401
                 | None \<Rightarrow> send_json invalid_username_or_password 401)
            | _ \<Rightarrow> send_json invalid_username_or_password 401))"
    using assms(1) unfolding assms(2,3) by (simp add: portal_auth_login_def Let_def)
  let ?ok1 = "send_json
              (JDict [(''success'', JBool True), (''token'', JStr ''customer-1-mock-token''),
                      (''customer'',
                         JDict [(''id'', JInt 1), (''customerCode'', JStr ''CUST-0001''),
                                (''name'', JStr ''John Doe''),
                                (''email'', JStr (lower name @ ''@email.com'')),
                                (''status'', JStr ''active'')])]) 200"
  let ?ok2 = "send_json
              (JDict [(''success'', JBool True), (''token'', JStr ''customer-2-mock-token''),
                      (''customer'',
                         JDict [(''id'', JInt 2), (''customerCode'', JStr ''CUST-0002''),
                                (''name'', JStr ''Ahmad Susanto''),
                                (''email'', JStr (lower name @ ''@email.com'')),
                                (''status'', JStr ''active'')])]) 200"
  let ?valid = "username \<in> {JStr ''johndoe'', JStr ''CUST-0001'', JStr ''ahmad'', JStr ''CUST-0002''}
                \<and> password = JStr ''password123''"
  have ok1: "portal_auth_login env b = ?ok1"
    if "username = JStr name" "name = ''johndoe'' \<or> name = ''CUST-0001''"
       "password = JStr ''password123''"
    unfolding portal using that
    by (simp add: map_of_valid_users portal_login_ok_def str_int_1)
  have ok2: "portal_auth_login env b = ?ok2"
    if "username = JStr name" "name = ''ahmad'' \<or> name = ''CUST-0002''"
       "password = JStr ''password123''"
    unfolding portal using that(2)
    by (elim disjE) (simp_all add: that(1,3) map_of_valid_users portal_login_ok_def str_int_2)
  have bad_password: "portal_auth_login env b = send_json invalid_username_or_password 401"
    if "hashable username" "password \<noteq> JStr ''password123''"
    unfolding portal using that
    by (cases username) (simp_all add: map_of_valid_users)
  have bad_username: "portal_auth_login env b = send_json invalid_username_or_password 401"
    if "hashable username"
       "username \<notin> {JStr ''johndoe'', JStr ''CUST-0001'', JStr ''ahmad'', JStr ''CUST-0002''}"
    unfolding portal using that
    by (cases username) (simp_all add: map_of_valid_users)
  have unhashable: "portal_auth_login env b = send_json invalid_request 400"
    if "\<not> hashable username"
    unfolding portal using that by simp
  have s200: "status (portal_auth_login env b) = 200" if v: "?valid"
  proof -
    from v obtain n where n: "username = JStr n"
        "n = ''johndoe'' \<or> n = ''CUST-0001'' \<or> n = ''ahmad'' \<or> n = ''CUST-0002''"
      by auto
    from v have p: "password = JStr ''password123''" by simp
    show ?thesis
      unfolding portal using n(2)
      by (elim disjE) (simp_all add: n(1) p map_of_valid_users status_send_json)
  qed
  have n200: "status (portal_auth_login env b) \<noteq> 200" if nv: "\<not> ?valid"
  proof (cases "hashable username")
    case False
    then show ?thesis by (simp add: unhashable status_send_json)
  next
    case True
    have "portal_auth_login env b = send_json invalid_username_or_password 401"
    proof (cases "password = JStr ''password123''")
      case False
      with True show ?thesis by (rule bad_password)
    next
      case pw: True
      with nv have "username \<notin> {JStr ''johndoe'', JStr ''CUST-0001'', JStr ''ahmad'',
                                   JStr ''CUST-0002''}"
        by simp
      with True show ?thesis by (rule bad_username)
    qed
    then show ?thesis by (simp add: status_send_json)
  qed
  have c1: "username = JStr name \<and> (name = ''johndoe'' \<or> name = ''CUST-0001'')
              \<and> password = JStr ''password123'' \<longrightarrow> portal_auth_login env b = ?ok1"
    using ok1 by simp
  have c2: "username = JStr name \<and> (name = ''ahmad'' \<or> name = ''CUST-0002'')
              \<and> password = JStr ''password123'' \<longrightarrow> portal_auth_login env b = ?ok2"
    using ok2 by simp
  have c3: "hashable username
            \<and> (username \<notin> {JStr ''johndoe'', JStr ''CUST-0001'', JStr ''ahmad'', JStr ''CUST-0002''}
                 \<or> password \<noteq> JStr ''password123'') \<longrightarrow>
          portal_auth_login env b =
            send_json (JDict [(''success'', JBool False),
                              (''error'', JStr ''Invalid username or password'')]) 401"
  proof (intro impI, elim conjE disjE)
    assume "hashable username"
       and "username \<notin> {JStr ''johndoe'', JStr ''CUST-0001'', JStr ''ahmad'', JStr ''CUST-0002''}"
    then have "portal_auth_login env b = send_json invalid_username_or_password 401"
      by (rule bad_username)
    then show "portal_auth_login env b =
            send_json (JDict [(''success'', JBool False),
                              (''error'', JStr ''Invalid username or password'')]) 401"
      by (simp only: invalid_username_or_password_def)
  next
    assume "hashable username" and "password \<noteq> JStr ''password123''"
    then have "portal_auth_login env b = send_json invalid_username_or_password 401"
      by (rule bad_password)
    then show "portal_auth_login env b =
            send_json (JDict [(''success'', JBool False),
                              (''error'', JStr ''Invalid username or password'')]) 401"
      by (simp only: invalid_username_or_password_def)
  qed
  have c4: "\<not> hashable username \<longrightarrow>
          portal_auth_login env b =
            send_json (JDict [(''success'', JBool False),
                              (''error'', JStr ''Invalid request'')]) 400"
    using unhashable unfolding invalid_request_def by simp
  have c5: "status (portal_auth_login env b) = 200 \<longleftrightarrow> ?valid"
    using s200 n200 by auto
  from c1 c2 c3 c4 c5 show ?thesis
    by (intro conjI)
qed

text \<open>
  A POST to \<open>/api/portal/auth/login\<close> whose JSON object has an array as
  \<open>username\<close> is answered with status 400, not 401.
\<close>

theorem portal_login_list_username_400:
  \<open>json_loads example_env ''{"username": [], "password": "password123"}''
     = Some (JDict [(''username'', JList []), (''password'', JStr ''password123'')])
   \<and> do_POST example_env
       (post_request ''/api/portal/auth/login'' ''{"username": [], "password": "password123"}'') =
     Sent \<lparr>status = 400,
           headers = [(''Content-Type'', ''application/json''), (''Content-Length'', ''46''),
                      (''Access-Control-Allow-Origin'', ''*'')],
           body = ''{"success": false, "error": "Invalid request"}''\<rparr>\<close>
  by code_simp

text \<open>
  Claim C10, amended. For a POST to \<open>/api/portal/auth/login\<close> whose body the
  handler reads and \<open>json.loads\<close> returns as a JSON object, with \<open>username\<close> and
  \<open>password\<close> its two fields (the empty string when absent): the answer is status
  200 with \<open>success\<close> true and the token \<open>customer-<id>-mock-token\<close> exactly when the
  username is one of \<open>johndoe\<close>, \<open>CUST-0001\<close>, \<open>ahmad\<close>, \<open>CUST-0002\<close> and the password is
  \<open>password123\<close>, with id 1 for the first two usernames and 2 for the last two; for
  every other pair whose username is not a JSON array or object it is status 401
  with \<open>success\<close> false; and for a username that is a JSON array or object it is
  status 400 with \<open>success\<close> false.
\<close>

theorem portal_login_credentials:
  assumes "urlparse_path env (rpath req) = Some ''/api/portal/auth/login''"
      and "read_body env req = Body b"
      and "json_loads env b = Some (JDict data)"
      and "username = dict_get data ''username'' (JStr [])"
      and "password = dict_get data ''password'' (JStr [])"
  shows "(username = JStr name \<and> (name = ''johndoe'' \<or> name = ''CUST-0001'')
            \<and> password = JStr ''password123'' \<longrightarrow>
          do_POST env req =
            Sent (send_json
              (JDict [(''success'', JBool True), (''token'', JStr ''customer-1-mock-token''),
                      (''customer'',
                         JDict [(''id'', JInt 1), (''customerCode'', JStr ''CUST-0001''),
                                (''name'', JStr ''John Doe''),
                                (''email'', JStr (lower name @ ''@email.com'')),
                                (''status'', JStr ''active'')])]) 200))
       \<and> (username = JStr name \<and> (name = ''ahmad'' \<or> name = ''CUST-0002'')
            \<and> password = JStr ''password123'' \<longrightarrow>
          do_POST env req =
            Sent (send_json
              (JDict [(''success'', JBool True), (''token'', JStr ''customer-2-mock-token''),
                      (''customer'',
                         JDict [(''id'', JInt 2), (''customerCode'', JStr ''CUST-0002''),
                                (''name'', JStr ''Ahmad Susanto''),
                                (''email'', JStr (lower name @ ''@email.com'')),
                                (''status'', JStr ''active'')])]) 200))
       \<and> (hashable username
            \<and> (username \<notin> {JStr ''johndoe'', JStr ''CUST-0001'', JStr ''ahmad'', JStr ''CUST-0002''}
                 \<or> password \<noteq> JStr ''password123'') \<longrightarrow>
          do_POST env req =
            Sent (send_json (JDict [(''success'', JBool False),
                                    (''error'', JStr ''Invalid username or password'')]) 401))
       \<and> (\<not> hashable username \<longrightarrow>
          do_POST env req =
            Sent (send_json (JDict [(''success'', JBool False),
                                    (''error'', JStr ''Invalid request'')]) 400))
       \<and> (status_of (do_POST env req) = Some 200 \<longleftrightarrow>
            username \<in> {JStr ''johndoe'', JStr ''CUST-0001'', JStr ''ahmad'', JStr ''CUST-0002''}
            \<and> password = JStr ''password123'')"
proof -
  have post: "do_POST env req = Sent (portal_auth_login env b)"
    using assms(1,2) by (simp add: do_POST_def)
  from portal_auth_login_dict [OF assms(3,4,5), of name] show ?thesis
    unfolding post by simp
qed

theorem portal_login_credentials_witness:
  \<open>do_POST example_env
     (post_request ''/api/portal/auth/login'' ''{"username": "johndoe", "password": "password123"}'') =
   Sent (send_json
      (JDict [(''success'', JBool True), (''token'', JStr ''customer-1-mock-token''),
              (''customer'',
                 JDict [(''id'', JInt 1), (''customerCode'', JStr ''CUST-0001''),
                        (''name'', JStr ''John Doe''),
                        (''email'', JStr ''johndoe@email.com''),
                        (''status'', JStr ''active'')])]) 200)\<close>
proof -
  let ?b = \<open>''{"username": "johndoe", "password": "password123"}''\<close>
  let ?r = "post_request ''/api/portal/auth/login'' ?b"
  have p: "urlparse_path example_env (rpath ?r) = Some ''/api/portal/auth/login''"
    by (simp add: example_env_def post_request_def)
  have b: "read_body example_env ?r = Body ?b"
    by code_simp
  have l: "json_loads example_env ?b
             = Some (JDict [(''username'', JStr ''johndoe''), (''password'', JStr ''password123'')])"
    by code_simp
  have lo: "lower ''johndoe'' = ''johndoe''"
    by code_simp
  from portal_login_credentials [OF p b l refl refl, where name = "''johndoe''"] show ?thesis
    by (simp add: dict_get_def lo)
qed

section \<open>Statuses, and what determines a response\<close>









section \<open>The device detail route \<open>/api/devices/...\<close>\<close>

text \<open>
  \<open>int(device_id) if device_id.isdigit() else 1\<close>: what \<open>int\<close> returns on a string
  that \<open>isdigit\<close> accepts, and what the route answers for each kind of last
  segment.
\<close>

lemma ascii_digit_not_space: "is_ascii_digit c \<Longrightarrow> \<not> is_int_space c"
  by (auto simp add: is_ascii_digit_def is_int_space_def)

lemma unicode_digit_not_space: "is_unicode_digit c \<Longrightarrow> \<not> is_int_space c"
  by (auto simp add: is_unicode_digit_def is_ascii_digit_def is_int_space_def ord_def)

lemma unicode_digit_not_sign:
  "is_unicode_digit c \<Longrightarrow> c \<noteq> CHR ''-'' \<and> c \<noteq> CHR ''+'' \<and> c \<noteq> CHR ''_''"
  by (auto simp add: is_unicode_digit_def is_ascii_digit_def ord_def)

lemma strip_isdigit:
  assumes "isdigit s"
  shows "strip s = s"
proof -
  from assms have ne: "s \<noteq> []" and all: "list_all is_unicode_digit s"
    by (simp_all add: isdigit_def)
  from ne all have "\<not> is_int_space (hd s)"
    by (cases s) (simp_all add: unicode_digit_not_space)
  with ne have front: "dropWhile is_int_space s = s"
    by (cases s) simp_all
  from ne all have "\<not> is_int_space (last s)"
    by (simp add: list_all_iff unicode_digit_not_space)
  with ne have "\<not> is_int_space (hd (rev s))"
    by (simp add: hd_rev)
  with ne have "dropWhile is_int_space (rev s) = rev s"
    by (cases "rev s") simp_all
  with front show ?thesis
    by (simp add: strip_def)
qed

lemma digits_of_ascii:
  "s \<noteq> [] \<Longrightarrow> list_all is_ascii_digit s \<Longrightarrow> digits_of s = Some s"
proof (induction s rule: digits_of.induct)
  case (3 c d cs)
  then have "d \<noteq> CHR ''_''"
    by (auto simp add: is_ascii_digit_def ord_def)
  with 3 show ?case by simp
qed simp_all

lemma digits_of_superscript:
  "list_all is_unicode_digit s \<Longrightarrow> \<not> list_all is_ascii_digit s \<Longrightarrow> digits_of s = None"
proof (induction s rule: digits_of.induct)
  case (3 c d cs)
  then have "d \<noteq> CHR ''_''"
    by (simp add: unicode_digit_not_sign)
  with 3 show ?case by auto
qed simp_all

lemma isdigit_ascii:
  "s \<noteq> [] \<Longrightarrow> list_all is_ascii_digit s \<Longrightarrow> isdigit s"
  by (simp add: isdigit_def is_unicode_digit_def list_all_iff)

lemma py_int_isdigit:
  assumes "isdigit s"
  shows "py_int lim s =
           (if list_all is_ascii_digit s \<and> (lim = 0 \<or> length s \<le> lim)
            then Some (decimal_value s) else None)"
proof -
  from assms have ne: "s \<noteq> []" and all: "list_all is_unicode_digit s"
    by (simp_all add: isdigit_def)
  from ne all have sign: "hd s \<noteq> CHR ''-''" "hd s \<noteq> CHR ''+''"
    by (cases s; simp add: unicode_digit_not_sign)+
  have py: "py_int lim s =
              (case digits_of s of
                 None \<Rightarrow> None
               | Some ds \<Rightarrow> if 0 < lim \<and> lim < length ds then None
                            else Some (decimal_value ds))"
    using sign by (simp add: py_int_def strip_isdigit [OF assms] Let_def split: option.split)
  show ?thesis
  proof (cases "list_all is_ascii_digit s")
    case True
    with ne show ?thesis
      by (auto simp add: py digits_of_ascii)
  next
    case False
    with all show ?thesis
      by (simp add: py digits_of_superscript)
  qed
qed

lemma device_detail_route:
  assumes "urlparse_path env (rpath req) = Some path"
      and "startswith path ''/api/devices/''"
      and "\<not> endswith path ''/wifi''" "\<not> endswith path ''/wan''"
          "\<not> endswith path ''/parameters''" "\<not> endswith path ''/pon''"
          "\<not> endswith path ''/clients''"
  shows "do_GET env req =
           (let device_id = last (split CHR ''/'' path)
            in case (if isdigit device_id then py_int (int_max_str_digits env) device_id
                     else Some 1) of
                 None \<Rightarrow> Raised ValueError
               | Some i \<Rightarrow> Sent (send_json (device_detail i) 200))"
proof -
  from assms(2) obtain rest where path: "path = ''/api/devices/'' @ rest"
    by (auto simp add: startswith_def prefix_def)
  have early: "path \<noteq> ''/''" "path \<noteq> ''/index.html''" "path \<noteq> ''/dashboard''"
    "path \<noteq> ''/devices''" "\<not> startswith path ''/device/''" "path \<noteq> ''/provisions''"
    "path \<noteq> ''/map''" "path \<noteq> ''/customers''" "path \<noteq> ''/billing''" "path \<noteq> ''/portal''"
    "path \<noteq> ''/portal/''" "path \<noteq> ''/portal/login''" "path \<noteq> ''/packages''"
    "path \<noteq> ''/tasks''" "path \<noteq> ''/logs''" "path \<noteq> ''/settings''"
    "\<not> startswith path ''/static/''" "path \<noteq> ''/api/dashboard/stats''"
    "path \<noteq> ''/api/devices''"
    by (simp_all add: path startswith_def)
  show ?thesis
    by (simp only: do_GET_def assms option.case early if_False if_True simp_thms Let_def)
qed

lemma device_detail_id:
  assumes "urlparse_path env (rpath req) = Some path"
      and "startswith path ''/api/devices/''"
      and "\<not> endswith path ''/wifi''" "\<not> endswith path ''/wan''"
          "\<not> endswith path ''/parameters''" "\<not> endswith path ''/pon''"
          "\<not> endswith path ''/clients''"
      and "seg = last (split CHR ''/'' path)"
      and "lim = int_max_str_digits env"
  shows "(\<not> isdigit seg \<longrightarrow> do_GET env req = Sent (send_json (device_detail 1) 200))
       \<and> (seg \<noteq> [] \<and> list_all is_ascii_digit seg \<and> (lim = 0 \<or> length seg \<le> lim) \<longrightarrow>
            do_GET env req = Sent (send_json (device_detail (decimal_value seg)) 200))
       \<and> (isdigit seg \<and> \<not> list_all is_ascii_digit seg \<longrightarrow> do_GET env req = Raised ValueError)
       \<and> (isdigit seg \<and> 0 < lim \<and> lim < length seg \<longrightarrow> do_GET env req = Raised ValueError)"
proof -
  note route = device_detail_route [OF assms(1-7), folded assms(8,9), unfolded Let_def]
  have a: "do_GET env req = Sent (send_json (device_detail 1) 200)" if "\<not> isdigit seg"
    using that by (simp add: route)
  have b: "do_GET env req = Sent (send_json (device_detail (decimal_value seg)) 200)"
    if "seg \<noteq> []" "list_all is_ascii_digit seg" "lim = 0 \<or> length seg \<le> lim"
  proof -
    from that have "isdigit seg" by (simp add: isdigit_ascii)
    with that show ?thesis by (simp add: route py_int_isdigit)
  qed
  have c: "do_GET env req = Raised ValueError" if "isdigit seg" "\<not> list_all is_ascii_digit seg"
    using that by (simp add: route py_int_isdigit)
  have d: "do_GET env req = Raised ValueError" if "isdigit seg" "0 < lim" "lim < length seg"
    using that by (simp add: route py_int_isdigit)
  from a b c d show ?thesis by blast
qed

text \<open>
  Claim C9 says that a GET of \<open>/api/devices/<seg>\<close> that matches no sub-resource
  route is answered with the device object whose \<open>id\<close> is the integer value of the
  last path segment when the segment consists of digits, and 1 otherwise. For the
  segment made of the one character U+00B2 (superscript two), which \<open>isdigit\<close>
  accepts and \<open>int\<close> rejects, the handler raises \<open>ValueError\<close> and answers nothing.
\<close>

theorem device_id_superscript_raises:
  "isdigit [CHR 0xB2]
   \<and> urlparse_path example_env (rpath (get_request (''/api/devices/'' @ [CHR 0xB2])))
       = Some (''/api/devices/'' @ [CHR 0xB2])
   \<and> do_GET example_env (get_request (''/api/devices/'' @ [CHR 0xB2])) = Raised ValueError"
  by code_simp

end
